theory Spec2Isabelle
  imports Main "HOL-Library.Word"
begin

section \<open>sqlite\_wrapper: an interposing shim over three SQLite entry points\<close>

text \<open>
  The development embeds \<^verbatim>\<open>src/cpp/src/sqlite_wrapper.cpp\<close>. The shim defines
  \<^verbatim>\<open>sqlite3_prepare_v2\<close>, \<^verbatim>\<open>sqlite3_step\<close> and \<^verbatim>\<open>sqlite3_finalize\<close>; each logs one
  row into a DuckDB table and calls the function of the same name that a load-time
  constructor looked up in \<^verbatim>\<open>libsqlite3.so\<close>.

  The process-wide globals of the source are the fields of one state record that every
  function takes and returns. What the source obtains from outside (the SQLite library,
  DuckDB, libc's resolver, the dynamic linker) is read from an environment record, so every
  theorem holds for whatever these collaborators answer. Two undefined behaviours of the C++
  are results of their own (type \<open>fault\<close>): a call through a null function pointer and a
  member call through a null \<^verbatim>\<open>std::unique_ptr\<close>. Neither is a \<^verbatim>\<open>std::exception\<close>, so no
  \<^verbatim>\<open>catch\<close> of the source intercepts them.

  Calls run one at a time: the mutex \<^verbatim>\<open>log_query\<close> holds is not modelled, and a string
  argument is the NUL-terminated text its pointer addresses.
\<close>

subsection \<open>SQLite side: handles, return codes, function pointer types\<close>

type_synonym c_int = "32 word"
  \<comment> \<open>C \<^verbatim>\<open>int\<close>; the source only passes it on and compares it for equality\<close>

definition SQLITE_OK :: c_int where "SQLITE_OK = 0"
definition SQLITE_ERROR :: c_int where "SQLITE_ERROR = 1"
definition SQLITE_ROW :: c_int where "SQLITE_ROW = 100"
definition SQLITE_DONE :: c_int where "SQLITE_DONE = 101"

type_synonym sqlite3 = nat
  \<comment> \<open>\<^verbatim>\<open>sqlite3*\<close>, an opaque database handle\<close>
type_synonym sqlite3_stmt = nat
  \<comment> \<open>\<^verbatim>\<open>sqlite3_stmt*\<close>, an opaque statement handle\<close>

text \<open>
  What \<^verbatim>\<open>sqlite3_prepare_v2\<close> hands back: its return code and what it stores through the two
  output pointers \<^verbatim>\<open>ppStmt\<close> and \<^verbatim>\<open>pzTail\<close>.
\<close>

record prepare_result =
  rc :: c_int
  ppStmt :: sqlite3_stmt
  pzTail :: string

text \<open>
  The three function pointer types of the source (lines 21--30). \<open>'l\<close> is the state of the
  real SQLite library, which every original function may read and change.
\<close>

type_synonym 'l sqlite3_prepare_v2_fn =
  "sqlite3 \<Rightarrow> string \<Rightarrow> c_int \<Rightarrow> 'l \<Rightarrow> prepare_result \<times> 'l"
type_synonym 'l sqlite3_step_fn = "sqlite3_stmt \<Rightarrow> 'l \<Rightarrow> c_int \<times> 'l"
type_synonym 'l sqlite3_finalize_fn = "sqlite3_stmt \<Rightarrow> 'l \<Rightarrow> c_int \<times> 'l"

text \<open>
  A library handle as \<^verbatim>\<open>dlopen\<close> returns it: what \<^verbatim>\<open>dlsym\<close> finds under each of the three
  names, \<open>None\<close> for a null pointer.
\<close>

record 'l library =
  dlsym_sqlite3_prepare_v2 :: "'l sqlite3_prepare_v2_fn option"
  dlsym_sqlite3_step :: "'l sqlite3_step_fn option"
  dlsym_sqlite3_finalize :: "'l sqlite3_finalize_fn option"

subsection \<open>DuckDB side: statements, tables, databases\<close>

datatype column_type = INTEGER | TEXT | TIMESTAMP | VARCHAR

record column_def =
  col_name :: string
  col_type :: column_type
  primary_key :: bool

text \<open>
  A value of an \<^verbatim>\<open>INSERT\<close>: a \<^verbatim>\<open>?\<close> placeholder with the string bound to it (every argument
  the source binds is a \<^verbatim>\<open>const char*\<close> or a \<^verbatim>\<open>std::string\<close>), or the SQL keyword
  \<^verbatim>\<open>CURRENT_TIMESTAMP\<close>, which the store evaluates.
\<close>

datatype sql_value = Bound string | CURRENT_TIMESTAMP

datatype statement =
    CreateTable bool string "column_def list"
      \<comment> \<open>the flag is \<^verbatim>\<open>IF NOT EXISTS\<close>\<close>
  | InsertInto string "string list" "sql_value list"

record table_def =
  tbl_name :: string
  tbl_columns :: "column_def list"
  tbl_rows :: "(string \<times> sql_value) list list"

type_synonym database = "table_def list"
  \<comment> \<open>the catalog of one database file, in creation order\<close>

text \<open>The statement of lines 58--68: its column list, and the statement itself.\<close>

definition sqlite_queries_columns :: "column_def list" where
  "sqlite_queries_columns =
     [\<lparr>col_name = ''id'', col_type = INTEGER, primary_key = True\<rparr>,
      \<lparr>col_name = ''query'', col_type = TEXT, primary_key = False\<rparr>,
      \<lparr>col_name = ''timestamp'', col_type = TIMESTAMP, primary_key = False\<rparr>,
      \<lparr>col_name = ''hostname'', col_type = VARCHAR, primary_key = False\<rparr>,
      \<lparr>col_name = ''ip'', col_type = VARCHAR, primary_key = False\<rparr>,
      \<lparr>col_name = ''thread_id'', col_type = INTEGER, primary_key = False\<rparr>,
      \<lparr>col_name = ''status'', col_type = VARCHAR, primary_key = False\<rparr>]"

definition create_sqlite_queries :: statement where
  "create_sqlite_queries = CreateTable True ''sqlite_queries'' sqlite_queries_columns"

text \<open>The statement of lines 85--88 with its five bound arguments.\<close>

definition insert_sqlite_queries ::
  "string \<Rightarrow> string \<Rightarrow> string \<Rightarrow> string \<Rightarrow> string \<Rightarrow> statement" where
  "insert_sqlite_queries sql hostname ip thread_id status =
     InsertInto ''sqlite_queries''
       [''query'', ''timestamp'', ''hostname'', ''ip'', ''thread_id'', ''status'']
       [Bound sql, CURRENT_TIMESTAMP, Bound hostname, Bound ip, Bound thread_id, Bound status]"

text \<open>
  What a store does with a statement it executes; \<open>None\<close> is an error result. Only the
  catalog behaviour of standard SQL is modelled: \<^verbatim>\<open>CREATE TABLE\<close> adds a table unless one of
  that name exists, where it fails unless \<^verbatim>\<open>IF NOT EXISTS\<close> was written; \<^verbatim>\<open>INSERT\<close> appends
  one row to the named table. Everything else by which DuckDB may refuse a statement
  (types, constraints, I/O) is the environment's \<open>duckdb_query_fate\<close> below.
\<close>

definition append_row :: "string \<Rightarrow> (string \<times> sql_value) list \<Rightarrow> database \<Rightarrow> database" where
  "append_row name row db =
     map (\<lambda>t. if tbl_name t = name then t\<lparr>tbl_rows := tbl_rows t @ [row]\<rparr> else t) db"

fun exec_statement :: "statement \<Rightarrow> database \<Rightarrow> database option" where
  "exec_statement (CreateTable if_not_exists name cols) db =
     (if name \<in> set (map tbl_name db)
      then (if if_not_exists then Some db else None)
      else Some (db @ [\<lparr>tbl_name = name, tbl_columns = cols, tbl_rows = []\<rparr>]))"
| "exec_statement (InsertInto name cols vals) db =
     (if name \<in> set (map tbl_name db) \<and> length cols = length vals
      then Some (append_row name (zip cols vals) db)
      else None)"

subsection \<open>The environment\<close>

datatype query_fate = Executes | Rejected | Throws string
  \<comment> \<open>\<^verbatim>\<open>Connection::Query\<close> runs the statement, returns an error result, or throws a
      \<^verbatim>\<open>std::exception\<close> with this \<^verbatim>\<open>what()\<close>\<close>

type_synonym in_addr = "8 word \<times> 8 word \<times> 8 word \<times> 8 word"
  \<comment> \<open>\<^verbatim>\<open>struct in_addr\<close>, its four bytes in memory (network) order\<close>

record 'l environment =
  duckdb_open_throws :: "string \<Rightarrow> string option"
    \<comment> \<open>the \<^verbatim>\<open>duckdb::DuckDB\<close> constructor on a path: \<open>Some what\<close> when it throws\<close>
  duckdb_connect_throws :: "string option"
    \<comment> \<open>the \<^verbatim>\<open>duckdb::Connection\<close> constructor\<close>
  duckdb_query_fate :: "statement \<Rightarrow> query_fate"
  gethostname :: string
    \<comment> \<open>the NUL-terminated name \<^verbatim>\<open>gethostname\<close> writes into the buffer\<close>
  gethostbyname :: "string \<Rightarrow> in_addr option"
    \<comment> \<open>\<open>None\<close> for a null \<^verbatim>\<open>hostent*\<close>, else the entry's \<^verbatim>\<open>h_addr_list[0]\<close>\<close>
  this_thread_id :: string
    \<comment> \<open>\<^verbatim>\<open>std::this_thread::get_id()\<close> as \<^verbatim>\<open>operator<<\<close> prints it\<close>
  dlopen :: "string \<Rightarrow> 'l library option"
  dlerror :: string
  sqlite3_sql :: "sqlite3_stmt \<Rightarrow> 'l \<Rightarrow> string option"
    \<comment> \<open>the real library's accessor, which the shim does not wrap; \<open>None\<close> is a null pointer\<close>

subsection \<open>The globals, and what the process does to the outside\<close>

datatype event =
    Query statement
      \<comment> \<open>\<^verbatim>\<open>g_duckdb_conn->Query(...)\<close>\<close>
  | Call_sqlite3_sql sqlite3_stmt
  | Call_original_prepare_v2 sqlite3 string c_int
  | Call_original_step sqlite3_stmt
  | Call_original_finalize sqlite3_stmt

record 'l state =
  g_duckdb :: "string option"
    \<comment> \<open>\<^verbatim>\<open>std::unique_ptr<duckdb::DuckDB>\<close>: null, or the database opened on this path\<close>
  g_duckdb_conn :: "string option"
    \<comment> \<open>\<^verbatim>\<open>std::unique_ptr<duckdb::Connection>\<close>: null, or a connection to that database\<close>
  original_prepare_v2 :: "'l sqlite3_prepare_v2_fn option"
  original_step :: "'l sqlite3_step_fn option"
  original_finalize :: "'l sqlite3_finalize_fn option"
  duckdb_files :: "string \<Rightarrow> database option"
    \<comment> \<open>the database stored under each path\<close>
  sqlite :: 'l
    \<comment> \<open>the state of the real SQLite library\<close>
  stderr :: "string list"
    \<comment> \<open>one entry per \<^verbatim>\<open>fprintf(stderr, ...)\<close>\<close>
  trace :: "event list"
    \<comment> \<open>the calls made to DuckDB and to SQLite, oldest first\<close>

text \<open>The globals as their initialisers leave them (lines 16--17 and 33--35).\<close>

definition initial_state :: "(string \<Rightarrow> database option) \<Rightarrow> 'l \<Rightarrow> 'l state" where
  "initial_state files l =
     \<lparr>g_duckdb = None, g_duckdb_conn = None,
      original_prepare_v2 = None, original_step = None, original_finalize = None,
      duckdb_files = files, sqlite = l, stderr = [], trace = []\<rparr>"

datatype fault = NullFunctionCall | NullDereference

definition newline :: string where
  "newline = [CHR 0x0A]"

subsection \<open>\<^verbatim>\<open>get_caller_info\<close> (lines 38--49)\<close>

definition decimal :: "nat \<Rightarrow> string" where
  "decimal n =
     (let digit = (\<lambda>d. ''0123456789'' ! d) in
      if n < 10 then [digit n]
      else if n < 100 then [digit (n div 10), digit (n mod 10)]
      else [digit (n div 100), digit (n div 10 mod 10), digit (n mod 10)])"

definition inet_ntoa :: "in_addr \<Rightarrow> string" where
  "inet_ntoa a =
     (case a of (b1, b2, b3, b4) \<Rightarrow>
        decimal (unat b1) @ ''.'' @ decimal (unat b2) @ ''.'' @
        decimal (unat b3) @ ''.'' @ decimal (unat b4))"

definition get_caller_info :: "'l environment \<Rightarrow> string \<times> string" where
  "get_caller_info env =
     (let hostname = gethostname env;
          host_entry = gethostbyname env hostname;
          ip = (case host_entry of None \<Rightarrow> ''127.0.0.1'' | Some a \<Rightarrow> inet_ntoa a)
      in (hostname, ip))"

subsection \<open>\<^verbatim>\<open>init_duckdb_logging\<close> (lines 52--72)\<close>

text \<open>
  Opening a path creates an empty database when none is stored there; \<^verbatim>\<open>:memory:\<close> is a
  fresh database at every open.
\<close>

definition duckdb_open :: "string \<Rightarrow> (string \<Rightarrow> database option) \<Rightarrow> string \<Rightarrow> database option" where
  "duckdb_open path files =
     (if path = '':memory:'' then files(path \<mapsto> [])
      else case files path of None \<Rightarrow> files(path \<mapsto> []) | Some db \<Rightarrow> files)"

text \<open>
  \<^verbatim>\<open>Connection::Query\<close> on the connection to the database at \<open>conn\<close>. The first component is
  the exception thrown, if any. An error result is returned to the caller, and the source
  drops every result unread.
\<close>

definition Connection_Query ::
  "'l environment \<Rightarrow> string \<Rightarrow> statement \<Rightarrow> 'l state \<Rightarrow> string option \<times> 'l state" where
  "Connection_Query env conn stmt st =
     (let st1 = st\<lparr>trace := trace st @ [Query stmt]\<rparr> in
      case duckdb_query_fate env stmt of
        Throws what \<Rightarrow> (Some what, st1)
      | Rejected \<Rightarrow> (None, st1)
      | Executes \<Rightarrow>
          (case duckdb_files st1 conn of
             None \<Rightarrow> (None, st1)
           | Some db \<Rightarrow>
               (case exec_statement stmt db of
                  None \<Rightarrow> (None, st1)
                | Some db' \<Rightarrow> (None, st1\<lparr>duckdb_files := (duckdb_files st1)(conn \<mapsto> db')\<rparr>))))"

definition init_duckdb_logging :: "'l environment \<Rightarrow> string \<Rightarrow> 'l state \<Rightarrow> 'l state" where
  "init_duckdb_logging env path st =
     (case duckdb_open_throws env path of
        Some what \<Rightarrow>
          st\<lparr>stderr := stderr st @ [''Failed to initialize DuckDB: '' @ what @ newline]\<rparr>
      | None \<Rightarrow>
          let st1 = st\<lparr>g_duckdb := Some path,
                       duckdb_files := duckdb_open path (duckdb_files st)\<rparr> in
          (case duckdb_connect_throws env of
             Some what \<Rightarrow>
               st1\<lparr>stderr := stderr st1 @ [''Failed to initialize DuckDB: '' @ what @ newline]\<rparr>
           | None \<Rightarrow>
               let st2 = st1\<lparr>g_duckdb_conn := Some path\<rparr> in
               (case Connection_Query env path create_sqlite_queries st2 of
                  (Some what, st3) \<Rightarrow>
                    st3\<lparr>stderr := stderr st3 @ [''Failed to initialize DuckDB: '' @ what @ newline]\<rparr>
                | (None, st3) \<Rightarrow> st3)))"

subsection \<open>\<^verbatim>\<open>log_query\<close> (lines 75--92)\<close>

text \<open>
  The \<^verbatim>\<open>try\<close> block catches \<^verbatim>\<open>std::exception\<close> only. \<^verbatim>\<open>g_duckdb_conn->Query\<close> on a null
  \<^verbatim>\<open>g_duckdb_conn\<close> throws nothing: it is a member call through a null pointer.
\<close>

definition log_query :: "'l environment \<Rightarrow> string \<Rightarrow> string \<Rightarrow> 'l state \<Rightarrow> fault + 'l state" where
  "log_query env sql status st =
     (let (hostname, ip) = get_caller_info env;
          thread_id = this_thread_id env
      in case g_duckdb_conn st of
           None \<Rightarrow> Inl NullDereference
         | Some conn \<Rightarrow>
             (case Connection_Query env conn
                     (insert_sqlite_queries sql hostname ip thread_id status) st of
                (Some what, st1) \<Rightarrow>
                  Inr (st1\<lparr>stderr := stderr st1 @ [''Failed to log query: '' @ what @ newline]\<rparr>)
              | (None, st1) \<Rightarrow> Inr st1))"

subsection \<open>The three wrapped entry points (lines 95--130)\<close>

definition sqlite3_prepare_v2 ::
  "'l environment \<Rightarrow> sqlite3 \<Rightarrow> string \<Rightarrow> c_int \<Rightarrow> 'l state \<Rightarrow> fault + (prepare_result \<times> 'l state)" where
  "sqlite3_prepare_v2 env db zSql nByte st =
     (case log_query env zSql ''prepared'' st of
        Inl flt \<Rightarrow> Inl flt
      | Inr st1 \<Rightarrow>
          (case original_prepare_v2 st1 of
             None \<Rightarrow> Inl NullFunctionCall
           | Some f \<Rightarrow>
               let (out, l) = f db zSql nByte (sqlite st1) in
               Inr (out, st1\<lparr>sqlite := l,
                               trace := trace st1 @ [Call_original_prepare_v2 db zSql nByte]\<rparr>)))"

definition sqlite3_step ::
  "'l environment \<Rightarrow> sqlite3_stmt \<Rightarrow> 'l state \<Rightarrow> fault + (c_int \<times> 'l state)" where
  "sqlite3_step env stmt st =
     (case original_step st of
        None \<Rightarrow> Inl NullFunctionCall
      | Some f \<Rightarrow>
          (let (result, l) = f stmt (sqlite st);
               st1 = st\<lparr>sqlite := l, trace := trace st @ [Call_original_step stmt]\<rparr>;
               sql = sqlite3_sql env stmt (sqlite st1);
               st2 = st1\<lparr>trace := trace st1 @ [Call_sqlite3_sql stmt]\<rparr>
           in (case sql of
                 None \<Rightarrow> Inr (result, st2)
               | Some sqltext \<Rightarrow>
                   (case log_query env sqltext
                           (if result = SQLITE_DONE then ''completed'' else ''executing'') st2 of
                      Inl flt \<Rightarrow> Inl flt
                    | Inr st3 \<Rightarrow> Inr (result, st3)))))"

definition sqlite3_finalize ::
  "'l environment \<Rightarrow> sqlite3_stmt \<Rightarrow> 'l state \<Rightarrow> fault + (c_int \<times> 'l state)" where
  "sqlite3_finalize env stmt st =
     (let sql = sqlite3_sql env stmt (sqlite st);
          st1 = st\<lparr>trace := trace st @ [Call_sqlite3_sql stmt]\<rparr>
      in case (case sql of None \<Rightarrow> Inr st1 | Some sqltext \<Rightarrow> log_query env sqltext ''finalized'' st1) of
           Inl flt \<Rightarrow> Inl flt
         | Inr st2 \<Rightarrow>
             (case original_finalize st2 of
                None \<Rightarrow> Inl NullFunctionCall
              | Some f \<Rightarrow>
                  let (result, l) = f stmt (sqlite st2) in
                  Inr (result, st2\<lparr>sqlite := l,
                                     trace := trace st2 @ [Call_original_finalize stmt]\<rparr>)))"

subsection \<open>The load-time constructor \<^verbatim>\<open>init\<close> (lines 133--154)\<close>

definition init :: "'l environment \<Rightarrow> 'l state \<Rightarrow> 'l state" where
  "init env st =
     (let st1 = init_duckdb_logging env ''/tmp/sqlite_analytics.duckdb'' st in
      case dlopen env ''libsqlite3.so'' of
        None \<Rightarrow>
          st1\<lparr>stderr := stderr st1 @ [''Failed to load SQLite library: '' @ dlerror env @ newline]\<rparr>
      | Some sqlite_handle \<Rightarrow>
          let st2 = st1\<lparr>original_prepare_v2 := dlsym_sqlite3_prepare_v2 sqlite_handle,
                        original_step := dlsym_sqlite3_step sqlite_handle,
                        original_finalize := dlsym_sqlite3_finalize sqlite_handle\<rparr> in
          if Option.is_none (original_prepare_v2 st2) \<or> Option.is_none (original_step st2)
             \<or> Option.is_none (original_finalize st2)
          then st2\<lparr>stderr := stderr st2 @ [''Failed to get SQLite function pointers'' @ newline]\<rparr>
          else st2)"

subsection \<open>The test program's query (\<^verbatim>\<open>tests/cpp/unit/test_wrapper.cpp\<close>, lines 36--52)\<close>

text \<open>
  The loop \<^verbatim>\<open>while (sqlite3_step(stmt) == SQLITE_ROW)\<close> runs as long as the library reports
  rows, so it takes fuel: \<open>None\<close> is a loop that has not ended when the fuel has.
\<close>

fun step_while_row ::
  "nat \<Rightarrow> 'l environment \<Rightarrow> sqlite3_stmt \<Rightarrow> 'l state \<Rightarrow> (fault + 'l state) option" where
  "step_while_row 0 env stmt st = None"
| "step_while_row (Suc fuel) env stmt st =
     (case sqlite3_step env stmt st of
        Inl flt \<Rightarrow> Some (Inl flt)
      | Inr (result, st') \<Rightarrow>
          if result = SQLITE_ROW then step_while_row fuel env stmt st' else Some (Inr st'))"

text \<open>Prepare, step through the rows, finalize; the integer is what \<^verbatim>\<open>main\<close> returns.\<close>

definition query_data ::
  "nat \<Rightarrow> 'l environment \<Rightarrow> sqlite3 \<Rightarrow> 'l state \<Rightarrow> (fault + (int \<times> 'l state)) option" where
  "query_data fuel env db st =
     (case sqlite3_prepare_v2 env db ''SELECT * FROM users'' (- 1) st of
        Inl flt \<Rightarrow> Some (Inl flt)
      | Inr (out, st1) \<Rightarrow>
          if rc out \<noteq> SQLITE_OK then Some (Inr (1, st1))
          else (case step_while_row fuel env (ppStmt out) st1 of
                  None \<Rightarrow> None
                | Some (Inl flt) \<Rightarrow> Some (Inl flt)
                | Some (Inr st2) \<Rightarrow>
                    (case sqlite3_finalize env (ppStmt out) st2 of
                       Inl flt \<Rightarrow> Some (Inl flt)
                     | Inr (result, st3) \<Rightarrow> Some (Inr (0, st3)))))"

subsection \<open>Observations on a run\<close>

text \<open>The statements sent to the store, in order: the audit trail as submitted.\<close>

fun audit_rows :: "event list \<Rightarrow> statement list" where
  "audit_rows [] = []"
| "audit_rows (Query s # es) = s # audit_rows es"
| "audit_rows (e # es) = audit_rows es"

text \<open>The tables of a catalog that carry the audit table's name.\<close>

definition audit_tables :: "database \<Rightarrow> table_def list" where
  "audit_tables db = filter (\<lambda>t. tbl_name t = ''sqlite_queries'') db"

text \<open>The row an audit \<^verbatim>\<open>INSERT\<close> adds when the store executes it.\<close>

definition audit_row ::
  "string \<Rightarrow> string \<Rightarrow> string \<Rightarrow> string \<Rightarrow> string \<Rightarrow> (string \<times> sql_value) list" where
  "audit_row sql hostname ip thread_id status =
     [(''query'', Bound sql), (''timestamp'', CURRENT_TIMESTAMP), (''hostname'', Bound hostname),
      (''ip'', Bound ip), (''thread_id'', Bound thread_id), (''status'', Bound status)]"

subsection \<open>A concrete library, environment and process\<close>

text \<open>
  A stand-in for the real library whose state is the number of rows the current statement
  still has. Preparing the query of the repository's test program succeeds with two rows
  to come; any other text fails to compile.
\<close>

definition example_prepare :: "nat sqlite3_prepare_v2_fn" where
  "example_prepare db zSql nByte l =
     (if zSql = ''SELECT * FROM users''
      then (\<lparr>rc = SQLITE_OK, ppStmt = 7, pzTail = []\<rparr>, 2)
      else (\<lparr>rc = SQLITE_ERROR, ppStmt = 0, pzTail = []\<rparr>, l))"

definition example_step :: "nat sqlite3_step_fn" where
  "example_step stmt l = (if l = 0 then (SQLITE_DONE, 0) else (SQLITE_ROW, l - 1))"

definition example_finalize :: "nat sqlite3_finalize_fn" where
  "example_finalize stmt l = (SQLITE_OK, 0)"

definition example_library :: "nat library" where
  "example_library =
     \<lparr>dlsym_sqlite3_prepare_v2 = Some example_prepare,
      dlsym_sqlite3_step = Some example_step,
      dlsym_sqlite3_finalize = Some example_finalize\<rparr>"

definition example_env :: "nat environment" where
  "example_env =
     \<lparr>duckdb_open_throws = (\<lambda>path. None),
      duckdb_connect_throws = None,
      duckdb_query_fate = (\<lambda>stmt. Executes),
      gethostname = ''box'',
      gethostbyname = (\<lambda>name. Some (192, 168, 1, 5)),
      this_thread_id = ''140737'',
      dlopen = (\<lambda>file. Some example_library),
      dlerror = [],
      sqlite3_sql = (\<lambda>stmt l. if stmt = 0 then None else Some ''SELECT * FROM users'')\<rparr>"

text \<open>The process after its constructor ran on an empty disk.\<close>

definition example_state :: "nat state" where
  "example_state = init example_env (initial_state (\<lambda>path. None) 0)"

text \<open>Environments that differ from \<open>example_env\<close> in one answer each.\<close>

definition step_unresolved_env :: "nat environment" where
  "step_unresolved_env =
     example_env\<lparr>dlopen := (\<lambda>file. Some (example_library\<lparr>dlsym_sqlite3_step := None\<rparr>))\<rparr>"

definition sink_fails_env :: "nat environment" where
  "sink_fails_env =
     example_env\<lparr>duckdb_open_throws := (\<lambda>path. Some ''IO Error: cannot open file'')\<rparr>"

definition no_address_env :: "nat environment" where
  "no_address_env = example_env\<lparr>gethostbyname := (\<lambda>name. None)\<rparr>"

text \<open>The processes the constructor leaves behind in two of them, on an empty disk.\<close>

definition step_unresolved_state :: "nat state" where
  "step_unresolved_state = init step_unresolved_env (initial_state (\<lambda>path. None) 0)"

definition sink_failed_state :: "nat state" where
  "sink_failed_state = init sink_fails_env (initial_state (\<lambda>path. None) 0)"

section \<open>Properties\<close>

subsection \<open>What one call to the store, and one call to \<^verbatim>\<open>log_query\<close>, change\<close>

lemma Connection_Query_frame:
  "Connection_Query env conn stmt st = (x, st') \<Longrightarrow>
     trace st' = trace st @ [Query stmt] \<and> stderr st' = stderr st \<and> sqlite st' = sqlite st \<and>
     g_duckdb st' = g_duckdb st \<and> g_duckdb_conn st' = g_duckdb_conn st \<and>
     original_prepare_v2 st' = original_prepare_v2 st \<and> original_step st' = original_step st \<and>
     original_finalize st' = original_finalize st"
  by (auto simp: Connection_Query_def Let_def split: query_fate.splits option.splits)

lemma Connection_Query_executes:
  assumes "duckdb_query_fate env stmt = Executes" and "duckdb_files st conn = Some db"
    and "exec_statement stmt db = Some db'"
  shows "Connection_Query env conn stmt st =
           (None, st\<lparr>trace := trace st @ [Query stmt],
                      duckdb_files := (duckdb_files st)(conn \<mapsto> db')\<rparr>)"
  using assms by (simp add: Connection_Query_def)

lemma log_query_null:
  "g_duckdb_conn st = None \<Longrightarrow> log_query env sql status st = Inl NullDereference"
  by (simp add: log_query_def split: prod.splits)

lemma log_query_connected:
  assumes "g_duckdb_conn st = Some conn"
  shows "\<exists>st'. log_query env sql status st = Inr st' \<and>
           trace st' = trace st @ [Query (insert_sqlite_queries sql (fst (get_caller_info env))
                                     (snd (get_caller_info env)) (this_thread_id env) status)] \<and>
           sqlite st' = sqlite st \<and> g_duckdb_conn st' = g_duckdb_conn st \<and>
           original_prepare_v2 st' = original_prepare_v2 st \<and> original_step st' = original_step st \<and>
           original_finalize st' = original_finalize st"
proof -
  obtain x st1 where q: "Connection_Query env conn
      (insert_sqlite_queries sql (fst (get_caller_info env)) (snd (get_caller_info env))
         (this_thread_id env) status) st = (x, st1)"
    by (cases "Connection_Query env conn
      (insert_sqlite_queries sql (fst (get_caller_info env)) (snd (get_caller_info env))
         (this_thread_id env) status) st")
  from Connection_Query_frame [OF q] assms q show ?thesis
    by (cases x) (simp_all add: log_query_def split_beta)
qed

lemma log_query_returns:
  assumes "log_query env sql status st = Inr st'"
  shows "g_duckdb_conn st \<noteq> None \<and> sqlite st' = sqlite st \<and>
         original_prepare_v2 st' = original_prepare_v2 st \<and> original_step st' = original_step st \<and>
         original_finalize st' = original_finalize st"
proof (cases "g_duckdb_conn st")
  case None
  with assms show ?thesis by (simp add: log_query_null)
next
  case (Some conn)
  from log_query_connected [OF Some, of env sql status] assms Some show ?thesis by auto
qed

subsection \<open>Each entry point on a process whose constructor succeeded\<close>

lemma prepare_forwards:
  assumes "g_duckdb_conn st = Some conn" and "original_prepare_v2 st = Some p"
  shows "\<exists>st'. sqlite3_prepare_v2 env db zSql nByte st = Inr (fst (p db zSql nByte (sqlite st)), st') \<and>
           sqlite st' = snd (p db zSql nByte (sqlite st)) \<and>
           trace st' = trace st @
             [Query (insert_sqlite_queries zSql (fst (get_caller_info env))
                (snd (get_caller_info env)) (this_thread_id env) ''prepared''),
              Call_original_prepare_v2 db zSql nByte]"
proof -
  from log_query_connected [OF assms(1), of env zSql "''prepared''"] obtain st1 where
    l: "log_query env zSql ''prepared'' st = Inr st1" and
    t: "trace st1 = trace st @ [Query (insert_sqlite_queries zSql (fst (get_caller_info env))
                (snd (get_caller_info env)) (this_thread_id env) ''prepared'')]" and
    s: "sqlite st1 = sqlite st" and o: "original_prepare_v2 st1 = original_prepare_v2 st"
    by blast
  show ?thesis
    by (simp add: sqlite3_prepare_v2_def l t s o assms(2) split_beta)
qed


lemma finalize_forwards:
  assumes "g_duckdb_conn st = Some conn" and "original_finalize st = Some f"
  shows "\<exists>st'. sqlite3_finalize env stmt st = Inr (fst (f stmt (sqlite st)), st') \<and>
           sqlite st' = snd (f stmt (sqlite st)) \<and>
           trace st' = trace st @ [Call_sqlite3_sql stmt] @
             (case sqlite3_sql env stmt (sqlite st) of
                None \<Rightarrow> []
              | Some sqltext \<Rightarrow>
                  [Query (insert_sqlite_queries sqltext (fst (get_caller_info env))
                     (snd (get_caller_info env)) (this_thread_id env) ''finalized'')]) @
             [Call_original_finalize stmt]"
proof (cases "sqlite3_sql env stmt (sqlite st)")
  case None
  then show ?thesis
    by (simp add: sqlite3_finalize_def assms(2) split_beta)
next
  case (Some sqltext)
  define st1 where "st1 = st\<lparr>trace := trace st @ [Call_sqlite3_sql stmt]\<rparr>"
  have c: "g_duckdb_conn st1 = Some conn" by (simp add: st1_def assms(1))
  from log_query_connected [OF c, of env sqltext "''finalized''"]
  obtain st2 where
    l: "log_query env sqltext ''finalized'' st1 = Inr st2" and
    t: "trace st2 = trace st1 @ [Query (insert_sqlite_queries sqltext (fst (get_caller_info env))
          (snd (get_caller_info env)) (this_thread_id env) ''finalized'')]" and
    s: "sqlite st2 = sqlite st1" and o: "original_finalize st2 = original_finalize st1"
    by blast
  have o': "original_finalize st2 = Some f" by (simp add: o st1_def assms(2))
  have s': "sqlite st2 = sqlite st" by (simp add: s st1_def)
  show ?thesis
    using l by (simp add: sqlite3_finalize_def Some st1_def [symmetric] o' s' t split_beta)
      (simp add: st1_def)
qed

subsection \<open>The concrete process\<close>

lemma example_state_fields:
  "g_duckdb_conn example_state = Some ''/tmp/sqlite_analytics.duckdb''"
  "original_prepare_v2 example_state = Some example_prepare"
  "original_step example_state = Some example_step"
  "original_finalize example_state = Some example_finalize"
  "trace example_state = [Query create_sqlite_queries]"
  "sqlite example_state = 0"
  "stderr example_state = []"
  "duckdb_files example_state ''/tmp/sqlite_analytics.duckdb'' =
     Some [\<lparr>tbl_name = ''sqlite_queries'',
            tbl_columns = sqlite_queries_columns,
            tbl_rows = []\<rparr>]"
  by (simp_all add: example_state_def init_def init_duckdb_logging_def Connection_Query_def
      duckdb_open_def example_env_def example_library_def initial_state_def
      create_sqlite_queries_def Option.is_none_def)

lemma example_caller_info: "get_caller_info example_env = (''box'', ''192.168.1.5'')"
  by (simp add: get_caller_info_def example_env_def inet_ntoa_def decimal_def)

lemma audit_rows_append: "audit_rows (xs @ ys) = audit_rows xs @ audit_rows ys"
  by (induction xs rule: audit_rows.induct) simp_all

subsection \<open>\<^verbatim>\<open>sqlite3_prepare_v2\<close>\<close>

text \<open>
  \<^bold>\<open>C5.\<close> In a process with a sink connection and a resolved original, the wrapped
  \<^verbatim>\<open>sqlite3_prepare_v2\<close> sends the store exactly one \<^verbatim>\<open>INSERT\<close>, whose \<open>query\<close> is the text
  \<open>zSql\<close> as given and whose \<open>status\<close> is \<open>prepared\<close>, then calls the original with the
  caller's arguments, and returns the original's return code and outputs.
\<close>

theorem prepare_logs_then_forwards:
  assumes "g_duckdb_conn st = Some conn" and "original_prepare_v2 st = Some p"
  shows "\<exists>st'. sqlite3_prepare_v2 env db zSql nByte st
                 = Inr (fst (p db zSql nByte (sqlite st)), st') \<and>
           trace st' = trace st @
             [Query (InsertInto ''sqlite_queries''
                [''query'', ''timestamp'', ''hostname'', ''ip'', ''thread_id'', ''status'']
                [Bound zSql, CURRENT_TIMESTAMP, Bound (fst (get_caller_info env)),
                 Bound (snd (get_caller_info env)), Bound (this_thread_id env),
                 Bound ''prepared'']),
              Call_original_prepare_v2 db zSql nByte]"
  using prepare_forwards [OF assms, of env db zSql nByte]
  by (auto simp: insert_sqlite_queries_def)

text \<open>
  The theorem at the query of the repository's test program.
\<close>

theorem prepare_logs_then_forwards_witness:
  "g_duckdb_conn example_state = Some ''/tmp/sqlite_analytics.duckdb'' \<and>
   original_prepare_v2 example_state = Some example_prepare \<and>
   (\<exists>st'. sqlite3_prepare_v2 example_env 3 ''SELECT * FROM users'' (- 1) example_state
            = Inr (\<lparr>rc = SQLITE_OK, ppStmt = 7, pzTail = []\<rparr>, st') \<and>
          trace st' =
            [Query create_sqlite_queries,
             Query (InsertInto ''sqlite_queries''
                [''query'', ''timestamp'', ''hostname'', ''ip'', ''thread_id'', ''status'']
                [Bound ''SELECT * FROM users'', CURRENT_TIMESTAMP, Bound ''box'',
                 Bound ''192.168.1.5'', Bound ''140737'', Bound ''prepared'']),
             Call_original_prepare_v2 3 ''SELECT * FROM users'' (- 1)])"
  using prepare_logs_then_forwards [OF example_state_fields(1) example_state_fields(2),
      of example_env 3 "''SELECT * FROM users''" "- 1"]
  by (simp add: example_state_fields example_caller_info example_prepare_def)
    (simp add: example_env_def)

subsection \<open>\<^verbatim>\<open>sqlite3_step\<close> and \<^verbatim>\<open>sqlite3_finalize\<close>\<close>



text \<open>
  \<^bold>\<open>C6.\<close> In a process with a sink connection and a resolved original, on a statement
  handle whose text \<^verbatim>\<open>sqlite3_sql\<close> returns, the wrapped \<^verbatim>\<open>sqlite3_finalize\<close> reads the text,
  sends exactly one \<^verbatim>\<open>INSERT\<close> with \<open>status\<close> \<open>finalized\<close>, only then calls the original,
  and returns the original's code.
\<close>

theorem finalize_logs_then_forwards:
  assumes "g_duckdb_conn st = Some conn" and "original_finalize st = Some f"
    and "sqlite3_sql env stmt (sqlite st) = Some sqltext"
  shows "\<exists>st'. sqlite3_finalize env stmt st = Inr (fst (f stmt (sqlite st)), st') \<and>
           trace st' = trace st @
             [Call_sqlite3_sql stmt,
              Query (InsertInto ''sqlite_queries''
                 [''query'', ''timestamp'', ''hostname'', ''ip'', ''thread_id'', ''status'']
                 [Bound sqltext, CURRENT_TIMESTAMP, Bound (fst (get_caller_info env)),
                  Bound (snd (get_caller_info env)), Bound (this_thread_id env),
                  Bound ''finalized'']),
              Call_original_finalize stmt]"
  using finalize_forwards [OF assms(1,2), of env stmt] assms(3)
  by (auto simp: insert_sqlite_queries_def)

text \<open>
  The theorem at the statement of the test program.
\<close>

theorem finalize_logs_then_forwards_witness:
  "g_duckdb_conn example_state = Some ''/tmp/sqlite_analytics.duckdb'' \<and>
   original_finalize example_state = Some example_finalize \<and>
   sqlite3_sql example_env 7 (sqlite example_state) = Some ''SELECT * FROM users'' \<and>
   (\<exists>st'. sqlite3_finalize example_env 7 example_state = Inr (SQLITE_OK, st') \<and>
      trace st' =
        [Query create_sqlite_queries, Call_sqlite3_sql 7,
         Query (InsertInto ''sqlite_queries''
            [''query'', ''timestamp'', ''hostname'', ''ip'', ''thread_id'', ''status'']
            [Bound ''SELECT * FROM users'', CURRENT_TIMESTAMP, Bound ''box'',
             Bound ''192.168.1.5'', Bound ''140737'', Bound ''finalized'']),
         Call_original_finalize 7])"
proof -
  have c: "g_duckdb_conn example_state = Some ''/tmp/sqlite_analytics.duckdb''"
    and o: "original_finalize example_state = Some example_finalize"
    by (rule example_state_fields)+
  have s: "sqlite3_sql example_env 7 (sqlite example_state) = Some ''SELECT * FROM users''"
    by (simp add: example_env_def)
  have t: "this_thread_id example_env = ''140737''"
    by (simp add: example_env_def)
  from finalize_logs_then_forwards [OF c o s] c o s show ?thesis
    by (simp add: example_state_fields example_finalize_def example_caller_info t)
qed

subsection \<open>Rows in the store\<close>

lemma exec_insert_sqlite_queries:
  "''sqlite_queries'' \<in> set (map tbl_name cat) \<Longrightarrow>
     exec_statement (insert_sqlite_queries sql hostname ip thread_id status) cat
     = Some (append_row ''sqlite_queries'' (audit_row sql hostname ip thread_id status) cat)"
  by (simp add: insert_sqlite_queries_def audit_row_def)

lemma log_query_executes:
  assumes "g_duckdb_conn st = Some conn"
    and "duckdb_query_fate env (insert_sqlite_queries sql (fst (get_caller_info env))
           (snd (get_caller_info env)) (this_thread_id env) status) = Executes"
    and "duckdb_files st conn = Some cat"
    and "''sqlite_queries'' \<in> set (map tbl_name cat)"
  shows "\<exists>st'. log_query env sql status st = Inr st' \<and>
           duckdb_files st' conn =
             Some (append_row ''sqlite_queries''
                     (audit_row sql (fst (get_caller_info env)) (snd (get_caller_info env))
                        (this_thread_id env) status) cat)"
  using assms(1)
    Connection_Query_executes [OF assms(2) assms(3) exec_insert_sqlite_queries [OF assms(4)]]
  by (simp add: log_query_def split_beta Let_def)

lemma prepare_keeps_store:
  assumes "log_query env zSql ''prepared'' st = Inr st1"
    and "sqlite3_prepare_v2 env db zSql nByte st = Inr (out, st')"
  shows "duckdb_files st' = duckdb_files st1"
  using assms by (auto simp: sqlite3_prepare_v2_def split_beta split: option.splits)

text \<open>
  \<^bold>\<open>C10.\<close> In a process with a sink connection and a resolved original, whatever the
  original \<^verbatim>\<open>sqlite3_prepare_v2\<close> returns (an error code included), the wrapper has sent
  exactly one \<open>prepared\<close> \<^verbatim>\<open>INSERT\<close> to the store before the original is called; and where
  the store executes that \<^verbatim>\<open>INSERT\<close> on a database holding the audit table, the row is in
  the table when the call returns.
\<close>

theorem prepared_row_precedes_original:
  assumes "g_duckdb_conn st = Some conn" and "original_prepare_v2 st = Some p"
  shows "\<exists>st'. sqlite3_prepare_v2 env db zSql nByte st
                 = Inr (fst (p db zSql nByte (sqlite st)), st') \<and>
           (\<exists>before. trace st' = before @ [Call_original_prepare_v2 db zSql nByte] \<and>
              audit_rows before = audit_rows (trace st) @
                [insert_sqlite_queries zSql (fst (get_caller_info env))
                   (snd (get_caller_info env)) (this_thread_id env) ''prepared'']) \<and>
           (\<forall>cat. duckdb_query_fate env (insert_sqlite_queries zSql (fst (get_caller_info env))
                     (snd (get_caller_info env)) (this_thread_id env) ''prepared'') = Executes \<and>
                  duckdb_files st conn = Some cat \<and> ''sqlite_queries'' \<in> set (map tbl_name cat)
              \<longrightarrow> duckdb_files st' conn =
                    Some (append_row ''sqlite_queries''
                            (audit_row zSql (fst (get_caller_info env))
                               (snd (get_caller_info env)) (this_thread_id env) ''prepared'')
                            cat))"
proof -
  from prepare_forwards [OF assms, of env db zSql nByte] obtain st' where
    r: "sqlite3_prepare_v2 env db zSql nByte st = Inr (fst (p db zSql nByte (sqlite st)), st')"
    and t: "trace st' = trace st @
             [Query (insert_sqlite_queries zSql (fst (get_caller_info env))
                (snd (get_caller_info env)) (this_thread_id env) ''prepared''),
              Call_original_prepare_v2 db zSql nByte]"
    by blast
  have "\<exists>before. trace st' = before @ [Call_original_prepare_v2 db zSql nByte] \<and>
          audit_rows before = audit_rows (trace st) @
            [insert_sqlite_queries zSql (fst (get_caller_info env))
               (snd (get_caller_info env)) (this_thread_id env) ''prepared'']"
    by (rule exI [of _ "trace st @
             [Query (insert_sqlite_queries zSql (fst (get_caller_info env))
                (snd (get_caller_info env)) (this_thread_id env) ''prepared'')]"])
      (simp add: t audit_rows_append)
  moreover have "duckdb_files st' conn =
        Some (append_row ''sqlite_queries''
                (audit_row zSql (fst (get_caller_info env))
                   (snd (get_caller_info env)) (this_thread_id env) ''prepared'') cat)"
    if "duckdb_query_fate env (insert_sqlite_queries zSql (fst (get_caller_info env))
          (snd (get_caller_info env)) (this_thread_id env) ''prepared'') = Executes"
      and "duckdb_files st conn = Some cat" and "''sqlite_queries'' \<in> set (map tbl_name cat)"
    for cat
  proof -
    from log_query_executes [OF assms(1) that] obtain st1 where
      l: "log_query env zSql ''prepared'' st = Inr st1" and
      f: "duckdb_files st1 conn = Some (append_row ''sqlite_queries''
                (audit_row zSql (fst (get_caller_info env))
                   (snd (get_caller_info env)) (this_thread_id env) ''prepared'') cat)"
      by blast
    from prepare_keeps_store [OF l r] f show ?thesis by simp
  qed
  ultimately show ?thesis using r by blast
qed

text \<open>
  The theorem at a text the library fails to compile: the call returns \<^verbatim>\<open>SQLITE_ERROR\<close> with
  no statement handle, and the audit table holds its \<open>prepared\<close> row.
\<close>

theorem prepared_row_precedes_original_witness:
  "g_duckdb_conn example_state = Some ''/tmp/sqlite_analytics.duckdb'' \<and>
   original_prepare_v2 example_state = Some example_prepare \<and>
   duckdb_query_fate example_env
     (insert_sqlite_queries ''SELEKT 1'' ''box'' ''192.168.1.5'' ''140737'' ''prepared'')
     = Executes \<and>
   duckdb_files example_state ''/tmp/sqlite_analytics.duckdb''
     = Some [\<lparr>tbl_name = ''sqlite_queries'', tbl_columns = sqlite_queries_columns,
              tbl_rows = []\<rparr>] \<and>
   (\<exists>st'. sqlite3_prepare_v2 example_env 3 ''SELEKT 1'' (- 1) example_state
            = Inr (\<lparr>rc = SQLITE_ERROR, ppStmt = 0, pzTail = []\<rparr>, st') \<and>
          duckdb_files st' ''/tmp/sqlite_analytics.duckdb''
            = Some [\<lparr>tbl_name = ''sqlite_queries'', tbl_columns = sqlite_queries_columns,
                     tbl_rows = [[(''query'', Bound ''SELEKT 1''),
                                  (''timestamp'', CURRENT_TIMESTAMP),
                                  (''hostname'', Bound ''box''),
                                  (''ip'', Bound ''192.168.1.5''),
                                  (''thread_id'', Bound ''140737''),
                                  (''status'', Bound ''prepared'')]]\<rparr>])"
proof -
  have e: "duckdb_query_fate example_env stmt = Executes"
    "this_thread_id example_env = ''140737''" for stmt
    by (simp_all add: example_env_def)
  from prepared_row_precedes_original [OF example_state_fields(1) example_state_fields(2),
      of example_env 3 "''SELEKT 1''" "- 1"]
  show ?thesis
    by (auto simp: example_state_fields example_caller_info example_prepare_def e
        append_row_def audit_row_def)
qed

subsection \<open>\<^verbatim>\<open>get_caller_info\<close>\<close>

text \<open>
  \<^bold>\<open>C8.\<close> \<^verbatim>\<open>get_caller_info\<close> has no failing branch: it always yields the host name paired
  with an address. Where \<^verbatim>\<open>gethostbyname\<close> finds no entry the address is \<open>127.0.0.1\<close>; every
  \<^verbatim>\<open>INSERT\<close> that \<^verbatim>\<open>log_query\<close> then sends over a sink connection binds \<open>127.0.0.1\<close> to \<open>ip\<close>;
  and a wrapped call still returns what the original returns.
\<close>

theorem caller_info_falls_back_to_loopback:
  "fst (get_caller_info env) = gethostname env \<and>
   (gethostbyname env (gethostname env) = None \<longrightarrow>
      get_caller_info env = (gethostname env, ''127.0.0.1'') \<and>
      (\<forall>conn. g_duckdb_conn st = Some conn \<longrightarrow>
         (\<exists>st'. log_query env sql status st = Inr st' \<and>
            trace st' = trace st @
              [Query (InsertInto ''sqlite_queries''
                 [''query'', ''timestamp'', ''hostname'', ''ip'', ''thread_id'', ''status'']
                 [Bound sql, CURRENT_TIMESTAMP, Bound (gethostname env), Bound ''127.0.0.1'',
                  Bound (this_thread_id env), Bound status])])) \<and>
      (\<forall>conn p. g_duckdb_conn st = Some conn \<and> original_prepare_v2 st = Some p \<longrightarrow>
         (\<exists>st'. sqlite3_prepare_v2 env db zSql nByte st
                  = Inr (fst (p db zSql nByte (sqlite st)), st'))))"
proof (intro conjI impI allI)
  show "fst (get_caller_info env) = gethostname env"
    by (simp add: get_caller_info_def Let_def)
next
  assume "gethostbyname env (gethostname env) = None"
  then show i: "get_caller_info env = (gethostname env, ''127.0.0.1'')"
    by (simp add: get_caller_info_def)
  fix conn
  assume c: "g_duckdb_conn st = Some conn"
  from log_query_connected [OF c, of env sql status]
  show "\<exists>st'. log_query env sql status st = Inr st' \<and>
            trace st' = trace st @
              [Query (InsertInto ''sqlite_queries''
                 [''query'', ''timestamp'', ''hostname'', ''ip'', ''thread_id'', ''status'']
                 [Bound sql, CURRENT_TIMESTAMP, Bound (gethostname env), Bound ''127.0.0.1'',
                  Bound (this_thread_id env), Bound status])]"
    by (auto simp: i insert_sqlite_queries_def)
next
  fix conn p
  assume "g_duckdb_conn st = Some conn \<and> original_prepare_v2 st = Some p"
  then have c: "g_duckdb_conn st = Some conn" and o: "original_prepare_v2 st = Some p"
    by simp_all
  from prepare_forwards [OF c o, of env db zSql nByte]
  show "\<exists>st'. sqlite3_prepare_v2 env db zSql nByte st
                  = Inr (fst (p db zSql nByte (sqlite st)), st')"
    by blast
qed

text \<open>
  The theorem on a host whose name does not resolve.
\<close>

theorem caller_info_falls_back_to_loopback_witness:
  "gethostbyname no_address_env (gethostname no_address_env) = None \<and>
   g_duckdb_conn example_state = Some ''/tmp/sqlite_analytics.duckdb'' \<and>
   original_prepare_v2 example_state = Some example_prepare \<and>
   get_caller_info no_address_env = (''box'', ''127.0.0.1'') \<and>
   (\<exists>st'. log_query no_address_env ''SELECT * FROM users'' ''prepared'' example_state = Inr st' \<and>
      trace st' =
        [Query create_sqlite_queries,
         Query (InsertInto ''sqlite_queries''
            [''query'', ''timestamp'', ''hostname'', ''ip'', ''thread_id'', ''status'']
            [Bound ''SELECT * FROM users'', CURRENT_TIMESTAMP, Bound ''box'',
             Bound ''127.0.0.1'', Bound ''140737'', Bound ''prepared''])]) \<and>
   (\<exists>st'. sqlite3_prepare_v2 no_address_env 3 ''SELECT * FROM users'' (- 1) example_state
            = Inr (\<lparr>rc = SQLITE_OK, ppStmt = 7, pzTail = []\<rparr>, st'))"
proof -
  have e: "gethostbyname no_address_env = (\<lambda>name. None)"
    "gethostname no_address_env = ''box''" "this_thread_id no_address_env = ''140737''"
    by (simp_all add: no_address_env_def example_env_def)
  from caller_info_falls_back_to_loopback [of no_address_env example_state
      "''SELECT * FROM users''" "''prepared''" 3 "''SELECT * FROM users''" "- 1"]
  show ?thesis
    by (simp add: e example_state_fields example_prepare_def)
qed

subsection \<open>\<^verbatim>\<open>init_duckdb_logging\<close> run again\<close>

lemma audit_tables_member:
  "''sqlite_queries'' \<in> set (map tbl_name cat) \<longleftrightarrow> audit_tables cat \<noteq> []"
  by (force simp: audit_tables_def filter_empty_conv)

lemma exec_create_sqlite_queries:
  "exec_statement create_sqlite_queries cat =
     Some (if audit_tables cat \<noteq> [] then cat
           else cat @ [\<lparr>tbl_name = ''sqlite_queries'', tbl_columns = sqlite_queries_columns,
                         tbl_rows = []\<rparr>])"
  by (simp add: create_sqlite_queries_def audit_tables_member [symmetric] del: set_map)

lemma init_duckdb_logging_succeeds:
  assumes "duckdb_open_throws env path = None" and "duckdb_connect_throws env = None"
    and "duckdb_query_fate env create_sqlite_queries = Executes"
    and "duckdb_open path (duckdb_files st) path = Some cat"
  shows "duckdb_files (init_duckdb_logging env path st) path
           = Some (if audit_tables cat \<noteq> [] then cat
                   else cat @ [\<lparr>tbl_name = ''sqlite_queries'',
                                 tbl_columns = sqlite_queries_columns, tbl_rows = []\<rparr>])"
    and "stderr (init_duckdb_logging env path st) = stderr st"
    and "g_duckdb_conn (init_duckdb_logging env path st) = Some path"
  using assms
  by (simp_all add: init_duckdb_logging_def Connection_Query_def exec_create_sqlite_queries
      del: exec_statement.simps)

text \<open>
  \<^bold>\<open>C9.\<close> Where DuckDB opens the path, connects and executes the \<^verbatim>\<open>CREATE TABLE\<close>:
  on a database that already holds the audit table, \<^verbatim>\<open>init_duckdb_logging\<close> leaves the database
  as it found it and writes nothing to \<^verbatim>\<open>stderr\<close>; and on any database with at most one
  table of that name, running it a second time leaves the database exactly as the first run
  left it, with exactly one audit table (of the declared columns when the first run created
  it), and nothing on \<^verbatim>\<open>stderr\<close>.
\<close>

theorem sink_initialisation_idempotent:
  assumes "duckdb_open_throws env path = None" and "duckdb_connect_throws env = None"
    and "duckdb_query_fate env create_sqlite_queries = Executes"
  shows "(\<forall>cat t. path \<noteq> '':memory:'' \<and> duckdb_files st path = Some cat \<and>
                 audit_tables cat = [t] \<longrightarrow>
            duckdb_files (init_duckdb_logging env path st) path = Some cat \<and>
            stderr (init_duckdb_logging env path st) = stderr st) \<and>
         ((\<forall>cat. duckdb_files st path = Some cat \<longrightarrow> length (audit_tables cat) \<le> 1) \<longrightarrow>
            (\<exists>cat t.
               duckdb_files (init_duckdb_logging env path st) path = Some cat \<and>
               duckdb_files (init_duckdb_logging env path (init_duckdb_logging env path st)) path
                 = Some cat \<and>
               audit_tables cat = [t] \<and>
               (duckdb_files st path = None \<longrightarrow> tbl_columns t = sqlite_queries_columns) \<and>
               stderr (init_duckdb_logging env path (init_duckdb_logging env path st))
                 = stderr st))"
proof (intro conjI allI impI)
  fix cat t
  assume h: "path \<noteq> '':memory:'' \<and> duckdb_files st path = Some cat \<and> audit_tables cat = [t]"
  then have o: "duckdb_open path (duckdb_files st) path = Some cat"
    by (simp add: duckdb_open_def)
  from init_duckdb_logging_succeeds(1) [OF assms o] h
  show "duckdb_files (init_duckdb_logging env path st) path = Some cat" by simp
  from init_duckdb_logging_succeeds(2) [OF assms o]
  show "stderr (init_duckdb_logging env path st) = stderr st" .
next
  assume atmost: "\<forall>cat. duckdb_files st path = Some cat \<longrightarrow> length (audit_tables cat) \<le> 1"
  define fresh where "fresh = \<lparr>tbl_name = ''sqlite_queries'',
    tbl_columns = sqlite_queries_columns, tbl_rows = []\<rparr>"
  define create where "create cat = (if audit_tables cat \<noteq> [] then cat else cat @ [fresh])"
    for cat
  define cat0 where "cat0 = (if path = '':memory:'' then []
    else case duckdb_files st path of None \<Rightarrow> [] | Some cat \<Rightarrow> cat)"
  define st1 where "st1 = init_duckdb_logging env path st"
  have open0: "duckdb_open path (duckdb_files st) path = Some cat0"
    by (simp add: duckdb_open_def cat0_def split: option.splits)
  have f1: "duckdb_files st1 path = Some (create cat0)" and e1: "stderr st1 = stderr st"
    using init_duckdb_logging_succeeds(1,2) [OF assms open0]
    by (simp_all add: st1_def create_def fresh_def)
  have small: "length (audit_tables cat0) \<le> 1"
    using atmost by (auto simp: cat0_def audit_tables_def split: option.splits)
  have one: "\<exists>t. audit_tables (create cat0) = [t]"
  proof (cases "audit_tables cat0")
    case Nil
    then show ?thesis by (simp add: create_def audit_tables_def fresh_def)
  next
    case (Cons t ts)
    with small have "audit_tables cat0 = [t]" by simp
    then show ?thesis by (simp add: create_def)
  qed
  then have again: "create (create cat0) = create cat0"
    by (auto simp: create_def)
  have fresh_only: "create [] = [fresh]"
    by (simp add: create_def audit_tables_def)
  have open1: "duckdb_open path (duckdb_files st1) path
                 = Some (if path = '':memory:'' then [] else create cat0)"
    by (simp add: duckdb_open_def f1)
  have f2: "duckdb_files (init_duckdb_logging env path st1) path = Some (create cat0)"
  proof (cases "path = '':memory:''")
    case True
    with init_duckdb_logging_succeeds(1) [OF assms open1] show ?thesis
      by (simp add: cat0_def create_def fresh_def audit_tables_def)
  next
    case False
    with init_duckdb_logging_succeeds(1) [OF assms open1]
    have "duckdb_files (init_duckdb_logging env path st1) path = Some (create (create cat0))"
      by (simp add: create_def fresh_def)
    with again show ?thesis by simp
  qed
  have e2: "stderr (init_duckdb_logging env path st1) = stderr st"
    using init_duckdb_logging_succeeds(2) [OF assms open1] e1 by simp
  from one obtain t where t: "audit_tables (create cat0) = [t]" by blast
  have schema: "tbl_columns t = sqlite_queries_columns" if "duckdb_files st path = None"
  proof -
    from that have "cat0 = []" by (simp add: cat0_def)
    with t fresh_only have "t = fresh" by (simp add: audit_tables_def fresh_def)
    then show ?thesis by (simp add: fresh_def)
  qed
  from f1 f2 e2 t schema
  show "\<exists>cat t.
          duckdb_files (init_duckdb_logging env path st) path = Some cat \<and>
          duckdb_files (init_duckdb_logging env path (init_duckdb_logging env path st)) path
            = Some cat \<and>
          audit_tables cat = [t] \<and>
          (duckdb_files st path = None \<longrightarrow> tbl_columns t = sqlite_queries_columns) \<and>
          stderr (init_duckdb_logging env path (init_duckdb_logging env path st)) = stderr st"
    unfolding st1_def by (intro exI [of _ "create cat0"] exI [of _ t]) simp
qed

text \<open>
  The theorem on the process whose constructor has already created the audit table.
\<close>

theorem sink_initialisation_idempotent_witness:
  "duckdb_open_throws example_env ''/tmp/sqlite_analytics.duckdb'' = None \<and>
   duckdb_connect_throws example_env = None \<and>
   duckdb_query_fate example_env create_sqlite_queries = Executes \<and>
   duckdb_files example_state ''/tmp/sqlite_analytics.duckdb''
     = Some [\<lparr>tbl_name = ''sqlite_queries'', tbl_columns = sqlite_queries_columns,
              tbl_rows = []\<rparr>] \<and>
   audit_tables [\<lparr>tbl_name = ''sqlite_queries'', tbl_columns = sqlite_queries_columns,
                   tbl_rows = []\<rparr>]
     = [\<lparr>tbl_name = ''sqlite_queries'', tbl_columns = sqlite_queries_columns,
          tbl_rows = []\<rparr>] \<and>
   duckdb_files (init_duckdb_logging example_env ''/tmp/sqlite_analytics.duckdb''
                   example_state) ''/tmp/sqlite_analytics.duckdb''
     = Some [\<lparr>tbl_name = ''sqlite_queries'', tbl_columns = sqlite_queries_columns,
              tbl_rows = []\<rparr>] \<and>
   duckdb_files (init_duckdb_logging example_env ''/tmp/sqlite_analytics.duckdb''
                   (init_duckdb_logging example_env ''/tmp/sqlite_analytics.duckdb''
                      example_state)) ''/tmp/sqlite_analytics.duckdb''
     = Some [\<lparr>tbl_name = ''sqlite_queries'', tbl_columns = sqlite_queries_columns,
              tbl_rows = []\<rparr>] \<and>
   stderr (init_duckdb_logging example_env ''/tmp/sqlite_analytics.duckdb'' example_state)
     = [] \<and>
   stderr (init_duckdb_logging example_env ''/tmp/sqlite_analytics.duckdb''
             (init_duckdb_logging example_env ''/tmp/sqlite_analytics.duckdb''
                example_state)) = []"
proof -
  have e: "duckdb_open_throws example_env ''/tmp/sqlite_analytics.duckdb'' = None"
    "duckdb_connect_throws example_env = None"
    "duckdb_query_fate example_env create_sqlite_queries = Executes"
    by (simp_all add: example_env_def)
  have a: "audit_tables [\<lparr>tbl_name = ''sqlite_queries'', tbl_columns = sqlite_queries_columns,
                   tbl_rows = []\<rparr>]
     = [\<lparr>tbl_name = ''sqlite_queries'', tbl_columns = sqlite_queries_columns,
          tbl_rows = []\<rparr>]"
    by (simp add: audit_tables_def)
  from sink_initialisation_idempotent [OF e, of example_state]
    e a
  show ?thesis
    by (auto simp: example_state_fields)
qed

subsection \<open>Processes whose constructor failed\<close>

lemma step_unresolved_state_fields:
  "g_duckdb_conn step_unresolved_state = Some ''/tmp/sqlite_analytics.duckdb''"
  "original_prepare_v2 step_unresolved_state = Some example_prepare"
  "original_step step_unresolved_state = None"
  "original_finalize step_unresolved_state = Some example_finalize"
  "sqlite step_unresolved_state = 0"
  "stderr step_unresolved_state = [''Failed to get SQLite function pointers'' @ newline]"
  by (simp_all add: step_unresolved_state_def step_unresolved_env_def init_def
      init_duckdb_logging_def Connection_Query_def duckdb_open_def example_env_def
      example_library_def initial_state_def create_sqlite_queries_def Option.is_none_def)

text \<open>
  \<^bold>\<open>C1.\<close> The source at a library in which \<^verbatim>\<open>sqlite3_step\<close> does not resolve while the other
  two names do. The constructor reports the failure on \<^verbatim>\<open>stderr\<close> and keeps the two pointers
  it found. The wrapped \<^verbatim>\<open>sqlite3_step\<close> then calls through the null pointer, and the wrapped
  \<^verbatim>\<open>sqlite3_prepare_v2\<close> forwards through the half-filled table as if nothing had happened.
\<close>

theorem unresolved_original_is_called:
  "map_option dlsym_sqlite3_step (dlopen step_unresolved_env ''libsqlite3.so'') = Some None \<and>
   original_step step_unresolved_state = None \<and>
   original_prepare_v2 step_unresolved_state = Some example_prepare \<and>
   original_finalize step_unresolved_state = Some example_finalize \<and>
   stderr step_unresolved_state = [''Failed to get SQLite function pointers'' @ newline] \<and>
   sqlite3_step step_unresolved_env 7 step_unresolved_state = Inl NullFunctionCall \<and>
   map_sum id fst
     (sqlite3_prepare_v2 step_unresolved_env 3 ''SELECT * FROM users'' (- 1)
        step_unresolved_state)
   = Inr \<lparr>rc = SQLITE_OK, ppStmt = 7, pzTail = []\<rparr>"
proof -
  from prepare_forwards [OF step_unresolved_state_fields(1) step_unresolved_state_fields(2),
      of step_unresolved_env 3 "''SELECT * FROM users''" "- 1"]
  have "map_sum id fst
     (sqlite3_prepare_v2 step_unresolved_env 3 ''SELECT * FROM users'' (- 1)
        step_unresolved_state)
   = Inr \<lparr>rc = SQLITE_OK, ppStmt = 7, pzTail = []\<rparr>"
    by (auto simp: step_unresolved_state_fields example_prepare_def)
  moreover have "sqlite3_step step_unresolved_env 7 step_unresolved_state = Inl NullFunctionCall"
    by (simp add: sqlite3_step_def step_unresolved_state_fields)
  moreover have
    "map_option dlsym_sqlite3_step (dlopen step_unresolved_env ''libsqlite3.so'') = Some None"
    by (simp add: step_unresolved_env_def example_env_def)
  ultimately show ?thesis
    by (simp add: step_unresolved_state_fields)
qed

lemma sink_failed_state_fields:
  "g_duckdb sink_failed_state = None"
  "g_duckdb_conn sink_failed_state = None"
  "original_prepare_v2 sink_failed_state = Some example_prepare"
  "original_step sink_failed_state = Some example_step"
  "original_finalize sink_failed_state = Some example_finalize"
  "sqlite sink_failed_state = 0"
  "stderr sink_failed_state
     = [''Failed to initialize DuckDB: IO Error: cannot open file'' @ newline]"
  by (simp_all add: sink_failed_state_def sink_fails_env_def init_def
      init_duckdb_logging_def example_env_def example_library_def initial_state_def
      Option.is_none_def)

text \<open>
  \<^bold>\<open>C3.\<close> The source where the \<^verbatim>\<open>duckdb::DuckDB\<close> constructor throws. \<^verbatim>\<open>init_duckdb_logging\<close>
  catches the exception and reports it, leaving \<^verbatim>\<open>g_duckdb_conn\<close> null; all three originals
  resolve. Every later \<^verbatim>\<open>log_query\<close> calls \<^verbatim>\<open>Query\<close> through the null connection, so each of
  the three wrapped entry points faults instead of returning.
\<close>

theorem failed_sink_is_dereferenced:
  "duckdb_open_throws sink_fails_env ''/tmp/sqlite_analytics.duckdb''
     = Some ''IO Error: cannot open file'' \<and>
   g_duckdb_conn sink_failed_state = None \<and>
   stderr sink_failed_state
     = [''Failed to initialize DuckDB: IO Error: cannot open file'' @ newline] \<and>
   original_prepare_v2 sink_failed_state = Some example_prepare \<and>
   original_step sink_failed_state = Some example_step \<and>
   original_finalize sink_failed_state = Some example_finalize \<and>
   log_query sink_fails_env ''SELECT * FROM users'' ''prepared'' sink_failed_state
     = Inl NullDereference \<and>
   sqlite3_prepare_v2 sink_fails_env 3 ''SELECT * FROM users'' (- 1) sink_failed_state
     = Inl NullDereference \<and>
   sqlite3_step sink_fails_env 7 sink_failed_state = Inl NullDereference \<and>
   sqlite3_finalize sink_fails_env 7 sink_failed_state = Inl NullDereference"
proof -
  have null: "log_query sink_fails_env sql status (sink_failed_state\<lparr>sqlite := l, trace := t\<rparr>)
                = Inl NullDereference"
    "log_query sink_fails_env sql status (sink_failed_state\<lparr>trace := t\<rparr>)
                = Inl NullDereference"
    "log_query sink_fails_env sql status sink_failed_state = Inl NullDereference"
    for sql status l t
    by (simp_all add: log_query_null sink_failed_state_fields)
  have env: "sqlite3_sql sink_fails_env 7 = (\<lambda>l. Some ''SELECT * FROM users'')"
    "duckdb_open_throws sink_fails_env ''/tmp/sqlite_analytics.duckdb''
       = Some ''IO Error: cannot open file''"
    by (simp_all add: sink_fails_env_def example_env_def)
  show ?thesis
    by (simp add: sink_failed_state_fields null env sqlite3_prepare_v2_def sqlite3_step_def
        sqlite3_finalize_def split_beta)
qed

text \<open>
  \<^bold>\<open>C2.\<close> The process whose \<^verbatim>\<open>duckdb::DuckDB\<close> constructor threw, each wrapped entry point
  set beside the original it would forward to. The three originals are resolved and, called
  directly with the same
  arguments, return \<^verbatim>\<open>SQLITE_OK\<close> with statement handle 7, \<^verbatim>\<open>SQLITE_DONE\<close> and \<^verbatim>\<open>SQLITE_OK\<close>;
  the wrapped calls return nothing, since the audit side effect faults before
  \<^verbatim>\<open>sqlite3_prepare_v2\<close> and \<^verbatim>\<open>sqlite3_finalize\<close> reach their original and after
  \<^verbatim>\<open>sqlite3_step\<close> has called its own.
\<close>

theorem forwarded_results_lost_when_sink_failed:
  "original_prepare_v2 sink_failed_state = Some example_prepare \<and>
   example_prepare 3 ''SELECT * FROM users'' (- 1) (sqlite sink_failed_state)
     = (\<lparr>rc = SQLITE_OK, ppStmt = 7, pzTail = []\<rparr>, 2) \<and>
   sqlite3_prepare_v2 sink_fails_env 3 ''SELECT * FROM users'' (- 1) sink_failed_state
     = Inl NullDereference \<and>
   original_step sink_failed_state = Some example_step \<and>
   example_step 7 (sqlite sink_failed_state) = (SQLITE_DONE, 0) \<and>
   sqlite3_step sink_fails_env 7 sink_failed_state = Inl NullDereference \<and>
   original_finalize sink_failed_state = Some example_finalize \<and>
   example_finalize 7 (sqlite sink_failed_state) = (SQLITE_OK, 0) \<and>
   sqlite3_finalize sink_fails_env 7 sink_failed_state = Inl NullDereference"
proof -
  have null: "log_query sink_fails_env sql status (sink_failed_state\<lparr>sqlite := l, trace := t\<rparr>)
                = Inl NullDereference"
    "log_query sink_fails_env sql status (sink_failed_state\<lparr>trace := t\<rparr>)
                = Inl NullDereference"
    "log_query sink_fails_env sql status sink_failed_state = Inl NullDereference"
    for sql status l t
    by (simp_all add: log_query_null sink_failed_state_fields)
  have env: "sqlite3_sql sink_fails_env 7 = (\<lambda>l. Some ''SELECT * FROM users'')"
    by (simp add: sink_fails_env_def example_env_def)
  show ?thesis
    by (simp add: sink_failed_state_fields null env sqlite3_prepare_v2_def sqlite3_step_def
        sqlite3_finalize_def split_beta example_prepare_def example_step_def
        example_finalize_def)
qed

subsection \<open>The audit table as created\<close>

text \<open>
  \<^bold>\<open>C7.\<close> The table the constructor creates on an empty disk, column by column:
  \<open>thread_id\<close> is declared \<^verbatim>\<open>INTEGER\<close>, while the \<^verbatim>\<open>INSERT\<close> of \<^verbatim>\<open>log_query\<close> binds the
  stringified thread identifier to it as text.
\<close>

theorem thread_id_column_is_integer:
  "map_option (map (\<lambda>t. (tbl_name t, map (\<lambda>c. (col_name c, col_type c)) (tbl_columns t))))
     (duckdb_files example_state ''/tmp/sqlite_analytics.duckdb'')
   = Some [(''sqlite_queries'',
            [(''id'', INTEGER), (''query'', TEXT), (''timestamp'', TIMESTAMP),
             (''hostname'', VARCHAR), (''ip'', VARCHAR), (''thread_id'', INTEGER),
             (''status'', VARCHAR)])] \<and>
   audit_rows (trace example_state) = [create_sqlite_queries] \<and>
   map_sum id (\<lambda>(out, st'). audit_rows (trace st'))
     (sqlite3_prepare_v2 example_env 3 ''SELECT * FROM users'' (- 1) example_state)
   = Inr [create_sqlite_queries,
          InsertInto ''sqlite_queries''
            [''query'', ''timestamp'', ''hostname'', ''ip'', ''thread_id'', ''status'']
            [Bound ''SELECT * FROM users'', CURRENT_TIMESTAMP, Bound ''box'',
             Bound ''192.168.1.5'', Bound ''140737'', Bound ''prepared'']]"
proof -
  have t: "this_thread_id example_env = ''140737''"
    by (simp add: example_env_def)
  from prepare_forwards [OF example_state_fields(1) example_state_fields(2),
      of example_env 3 "''SELECT * FROM users''" "- 1"]
  have "map_sum id (\<lambda>(out, st'). audit_rows (trace st'))
     (sqlite3_prepare_v2 example_env 3 ''SELECT * FROM users'' (- 1) example_state)
   = Inr [create_sqlite_queries,
          InsertInto ''sqlite_queries''
            [''query'', ''timestamp'', ''hostname'', ''ip'', ''thread_id'', ''status'']
            [Bound ''SELECT * FROM users'', CURRENT_TIMESTAMP, Bound ''box'',
             Bound ''192.168.1.5'', Bound ''140737'', Bound ''prepared'']]"
    by (auto simp: example_state_fields example_caller_info t insert_sqlite_queries_def)
  then show ?thesis
    by (simp add: example_state_fields sqlite_queries_columns_def)
qed

subsection \<open>The test program's audit trail\<close>

lemma example_env_fields:
  "this_thread_id example_env = ''140737''"
  "sqlite3_sql example_env 7 = (\<lambda>l. Some ''SELECT * FROM users'')"
  "duckdb_query_fate example_env = (\<lambda>stmt. Executes)"
  by (simp_all add: example_env_def)

text \<open>
  With two rows to fetch, the test program's query leaves five rows behind the table's
  creation, all with the same text: \<open>prepared\<close>, \<open>executing\<close> twice, \<open>completed\<close>,
  \<open>finalized\<close>; and the program ends normally.
\<close>

lemma test_program_audit_trail:
  "map_option (map_sum id (\<lambda>(code, st'). (code, audit_rows (trace st'))))
     (query_data 3 example_env 3 example_state)
   = Some (Inr (0,
       [create_sqlite_queries,
        insert_sqlite_queries ''SELECT * FROM users'' ''box'' ''192.168.1.5'' ''140737'' ''prepared'',
        insert_sqlite_queries ''SELECT * FROM users'' ''box'' ''192.168.1.5'' ''140737'' ''executing'',
        insert_sqlite_queries ''SELECT * FROM users'' ''box'' ''192.168.1.5'' ''140737'' ''executing'',
        insert_sqlite_queries ''SELECT * FROM users'' ''box'' ''192.168.1.5'' ''140737'' ''completed'',
        insert_sqlite_queries ''SELECT * FROM users'' ''box'' ''192.168.1.5'' ''140737'' ''finalized'']))"
proof -
  have three: "(3::nat) = Suc (Suc (Suc 0))" by simp
  have codes: "SQLITE_ROW \<noteq> SQLITE_DONE" "SQLITE_DONE \<noteq> SQLITE_ROW"
    by (simp_all add: SQLITE_ROW_def SQLITE_DONE_def)
  show ?thesis
    unfolding query_data_def three
    by (simp add: sqlite3_prepare_v2_def sqlite3_step_def sqlite3_finalize_def log_query_def
        Connection_Query_def example_state_fields example_env_fields example_caller_info
        example_prepare_def example_step_def example_finalize_def codes Let_def
        insert_sqlite_queries_def create_sqlite_queries_def append_row_def)
qed

end
